theory Spec2Isabelle
  imports Complex_Main "HOL-Library.AList"
begin

section \<open>Numbers and the JavaScript operators the engine uses\<close>

text \<open>
  The engine of \<^verbatim>\<open>src/app.js\<close> computes with JavaScript numbers. They are modelled
  as \<^typ>\<open>real\<close>: every operation is the exact one, so rounding, NaN inputs and overflow
  are outside the model. A field that the telemetry source may leave \<^verbatim>\<open>null\<close> is a
  \<^typ>\<open>real option\<close>.
\<close>

definition js_rem :: "real \<Rightarrow> real \<Rightarrow> real" where
  \<comment> \<open>The operator \<^verbatim>\<open>x % y\<close> on numbers, \<^verbatim>\<open>y\<close> not zero: the quotient is truncated
      toward zero, so the result has the sign of \<^verbatim>\<open>x\<close>.\<close>
  "js_rem x y = x - y * of_int (if 0 \<le> x / y then \<lfloor>x / y\<rfloor> else \<lceil>x / y\<rceil>)"

definition atan2 :: "real \<Rightarrow> real \<Rightarrow> real" where
  \<comment> \<open>\<^verbatim>\<open>Math.atan2(y, x)\<close>: the angle of the point \<^verbatim>\<open>(x, y)\<close>, in \<^verbatim>\<open>(-pi, pi]\<close>.\<close>
  "atan2 y x =
     (if 0 < x then arctan (y / x)
      else if x < 0 then (if 0 \<le> y then arctan (y / x) + pi else arctan (y / x) - pi)
      else if 0 < y then pi / 2
      else if y < 0 then - (pi / 2)
      else 0)"

section \<open>Runway prediction engine: geodesy\<close>

definition toRad :: "real \<Rightarrow> real" where
  "toRad deg = (deg * pi) / 180"

definition toDeg :: "real \<Rightarrow> real" where
  "toDeg rad = (rad * 180) / pi"

definition haversine :: "real \<Rightarrow> real \<Rightarrow> real \<Rightarrow> real \<Rightarrow> real" where
  "haversine lat1 lon1 lat2 lon2 =
     (let R = 6371;
          dLat = toRad (lat2 - lat1);
          dLon = toRad (lon2 - lon1);
          a = (sin (dLat / 2))\<^sup>2 +
              cos (toRad lat1) * cos (toRad lat2) * (sin (dLon / 2))\<^sup>2
      in R * 2 * atan2 (sqrt a) (sqrt (1 - a)))"

definition bearing :: "real \<Rightarrow> real \<Rightarrow> real \<Rightarrow> real \<Rightarrow> real" where
  "bearing lat1 lon1 lat2 lon2 =
     (let dLon = toRad (lon2 - lon1);
          y = sin dLon * cos (toRad lat2);
          x = cos (toRad lat1) * sin (toRad lat2) -
              sin (toRad lat1) * cos (toRad lat2) * cos dLon
      in js_rem (js_rem (toDeg (atan2 y x)) 360 + 360) 360)"

definition crossTrackDistance ::
    "real \<Rightarrow> real \<Rightarrow> real \<Rightarrow> real \<Rightarrow> real \<Rightarrow> real \<Rightarrow> real" where
  "crossTrackDistance pointLat pointLon lineLat1 lineLon1 lineLat2 lineLon2 =
     (let R = 6371;
          d13 = haversine lineLat1 lineLon1 pointLat pointLon / R;
          brng13 = toRad (bearing lineLat1 lineLon1 pointLat pointLon);
          brng12 = toRad (bearing lineLat1 lineLon1 lineLat2 lineLon2)
      in \<bar>arcsin (sin d13 * sin (brng13 - brng12))\<bar> * R)"

definition angleDiff :: "real \<Rightarrow> real \<Rightarrow> real" where
  "angleDiff a b =
     (let diff = js_rem (a - b + 180) 360 - 180
      in if diff < - 180 then diff + 360 else diff)"

section \<open>Static tables\<close>

record latlng =
  lat :: real
  lng :: real

definition FRA :: latlng where
  "FRA = \<lparr>lat = 50.0267, lng = 8.5584\<rparr>"

definition ARRIVING_MAX_ALT :: real where
  "ARRIVING_MAX_ALT = 4000"

definition ARRIVING_MAX_DIST :: real where
  "ARRIVING_MAX_DIST = 80"

text \<open>
  The six keys of the table \<^verbatim>\<open>RUNWAYS\<close>: \<^verbatim>\<open>'25R'\<close>, \<^verbatim>\<open>'25C'\<close>, \<^verbatim>\<open>'25L'\<close>, \<^verbatim>\<open>'07L'\<close>,
  \<^verbatim>\<open>'07C'\<close>, \<^verbatim>\<open>'07R'\<close>. The colour and the label of a runway are presentation only and
  are left out.
\<close>

datatype runway_id = RWY_25R | RWY_25C | RWY_25L | RWY_07L | RWY_07C | RWY_07R

record runway =
  threshold :: latlng
  opposite :: latlng
  heading :: real

fun RUNWAYS :: "runway_id \<Rightarrow> runway" where
  "RUNWAYS RWY_25R = \<lparr>threshold = \<lparr>lat = 50.0371, lng = 8.4971\<rparr>,
                       opposite = \<lparr>lat = 50.0458, lng = 8.5337\<rparr>, heading = 249\<rparr>"
| "RUNWAYS RWY_25C = \<lparr>threshold = \<lparr>lat = 50.0326, lng = 8.5346\<rparr>,
                       opposite = \<lparr>lat = 50.0451, lng = 8.5870\<rparr>, heading = 249\<rparr>"
| "RUNWAYS RWY_25L = \<lparr>threshold = \<lparr>lat = 50.0275, lng = 8.5342\<rparr>,
                       opposite = \<lparr>lat = 50.0401, lng = 8.5865\<rparr>, heading = 249\<rparr>"
| "RUNWAYS RWY_07L = \<lparr>threshold = \<lparr>lat = 50.0458, lng = 8.5337\<rparr>,
                       opposite = \<lparr>lat = 50.0371, lng = 8.4971\<rparr>, heading = 69\<rparr>"
| "RUNWAYS RWY_07C = \<lparr>threshold = \<lparr>lat = 50.0451, lng = 8.5870\<rparr>,
                       opposite = \<lparr>lat = 50.0326, lng = 8.5346\<rparr>, heading = 69\<rparr>"
| "RUNWAYS RWY_07R = \<lparr>threshold = \<lparr>lat = 50.0401, lng = 8.5865\<rparr>,
                       opposite = \<lparr>lat = 50.0275, lng = 8.5342\<rparr>, heading = 69\<rparr>"

datatype config = westerly | easterly

fun CONFIGS :: "config \<Rightarrow> runway_id list" where
  "CONFIGS westerly = [RWY_25R, RWY_25C, RWY_25L]"
| "CONFIGS easterly = [RWY_07L, RWY_07C, RWY_07R]"

section \<open>Flights\<close>

text \<open>
  One object of the array \<^verbatim>\<open>flights\<close>. \<^verbatim>\<open>fetchFlights\<close> keeps only objects whose
  latitude and longitude are not \<^verbatim>\<open>null\<close>, so both are numbers; \<open>baroAltitude\<close>,
  \<open>heading\<close> and \<open>verticalRate\<close> are numbers or \<^verbatim>\<open>null\<close> (\<open>None\<close>). The last five
  fields are the ones \<^verbatim>\<open>runPredictions\<close> writes; before the first run they are absent
  (\<^verbatim>\<open>undefined\<close>): \<open>None\<close> for \<open>distanceToAirport\<close>, \<open>predictedRunway\<close> and
  \<open>confidence\<close>, and \<open>False\<close> for the two flags, of which the code only reads the
  truth value. \<open>None\<close> in \<open>confidence\<close> also stands for NaN. The fields the engine
  never reads (callsign, velocity and so on) live in the record's extension.
\<close>

record prediction =
  runway :: "runway_id option"
  confidence :: "real option"

record flight =
  icao24 :: string
  latitude :: real
  longitude :: real
  baroAltitude :: "real option"
  heading :: "real option"
  verticalRate :: "real option"
  distanceToAirport :: "real option"
  isDeparting_flag :: bool
  isArriving_flag :: bool
  predictedRunway :: "runway_id option"
  confidence :: "real option"

definition lt :: "real option \<Rightarrow> real \<Rightarrow> bool" where
  \<comment> \<open>\<^verbatim>\<open>x != null && x < c\<close>, and \<^verbatim>\<open>x < c\<close> for an \<^verbatim>\<open>x\<close> that is a number or
      \<^verbatim>\<open>undefined\<close>: \<^verbatim>\<open>undefined\<close> converts to NaN, and a comparison with NaN is false.\<close>
  "lt x c = (case x of None \<Rightarrow> False | Some v \<Rightarrow> v < c)"

definition gt :: "real option \<Rightarrow> real \<Rightarrow> bool" where
  \<comment> \<open>\<^verbatim>\<open>x != null && x > c\<close>, and \<^verbatim>\<open>x > c\<close> for a number or \<^verbatim>\<open>undefined\<close>.\<close>
  "gt x c = (case x of None \<Rightarrow> False | Some v \<Rightarrow> c < v)"

definition num :: "real option \<Rightarrow> real" where
  \<comment> \<open>A nullable field read in arithmetic: \<^verbatim>\<open>null\<close> converts to 0.\<close>
  "num x = (case x of None \<Rightarrow> 0 | Some v \<Rightarrow> v)"

section \<open>Runway prediction engine: classification\<close>

definition isDeparting :: "'a flight_scheme \<Rightarrow> bool" where
  "isDeparting flight =
     (case (distanceToAirport flight, baroAltitude flight) of
        (Some dkm, Some alt) \<Rightarrow>
          if dkm < 30 \<and> gt (verticalRate flight) 2 then True
          else if dkm < 15 \<and> alt < 1500 \<and> gt (verticalRate flight) 0.5 then True
          else if (dkm < 25 \<and> alt < 2000 \<and> flight.heading flight \<noteq> None) \<and>
                  (let diffNS1 = \<bar>angleDiff (num (flight.heading flight)) 180\<bar>;
                       diffNS2 = \<bar>angleDiff (num (flight.heading flight)) 360\<bar>
                   in (diffNS1 < 25 \<or> diffNS2 < 25) \<and> gt (verticalRate flight) 0) then True
          else if (dkm < 40 \<and> alt < 3000 \<and> flight.heading flight \<noteq> None \<and>
                   gt (verticalRate flight) 1) \<and>
                  (let bearingToAircraft =
                         bearing (lat FRA) (lng FRA) (latitude flight) (longitude flight);
                       diff = \<bar>angleDiff (num (flight.heading flight)) bearingToAircraft\<bar>
                   in diff < 40) then True
          else False
      | _ \<Rightarrow> False)"

definition isArriving :: "'a flight_scheme \<Rightarrow> bool" where
  "isArriving flight =
     (case (baroAltitude flight, flight.heading flight) of
        (Some alt, Some hdg) \<Rightarrow>
          if gt (distanceToAirport flight) ARRIVING_MAX_DIST then False
          else if alt > ARRIVING_MAX_ALT then False
          else if isDeparting flight then False
          else if gt (verticalRate flight) 3 then False
          else
            (let diffWest = \<bar>angleDiff hdg 249\<bar>;
                 diffEast = \<bar>angleDiff hdg 69\<bar>
             in if diffWest > 50 \<and> diffEast > 50 then False
                else if gt (distanceToAirport flight) 5 \<and>
                        (let bearingToAirport =
                               bearing (latitude flight) (longitude flight) (lat FRA) (lng FRA);
                             approachDiff = \<bar>angleDiff hdg bearingToAirport\<bar>
                         in approachDiff > 70) then False
                else True)
      | _ \<Rightarrow> False)"

section \<open>Runway prediction engine: configuration detection\<close>

definition vote :: "'a flight_scheme \<Rightarrow> nat \<times> nat \<Rightarrow> nat \<times> nat" where
  \<comment> \<open>The body of the \<^verbatim>\<open>forEach\<close> over the candidates, on the pair of counters
      \<^verbatim>\<open>(westerlyVotes, easterlyVotes)\<close>.\<close>
  "vote f = (\<lambda>(westerlyVotes, easterlyVotes).
     (let diffWest = \<bar>angleDiff (num (flight.heading f)) 250\<bar>;
          diffEast = \<bar>angleDiff (num (flight.heading f)) 70\<bar>
      in (if diffWest < 40 then westerlyVotes + 1 else westerlyVotes,
          if diffEast < 40 then easterlyVotes + 1 else easterlyVotes)))"

definition detectConfiguration :: "'a flight_scheme list \<Rightarrow> config" where
  "detectConfiguration flights =
     (let candidates = filter
            (\<lambda>f. baroAltitude f \<noteq> None \<and>
                 lt (baroAltitude f) ARRIVING_MAX_ALT \<and>
                 flight.heading f \<noteq> None \<and>
                 verticalRate f \<noteq> None \<and>
                 lt (verticalRate f) (- 1) \<and>
                 lt (distanceToAirport f) ARRIVING_MAX_DIST) flights
      in if length candidates = 0 then westerly
         else (case fold vote candidates (0, 0) of
                 (westerlyVotes, easterlyVotes) \<Rightarrow>
                   if westerlyVotes \<ge> easterlyVotes then westerly else easterly))"

section \<open>Runway prediction engine: scoring\<close>

text \<open>
  \<^verbatim>\<open>activeRunways[0]\<close> is \<open>hd activeRunways\<close>: both lists of \<open>CONFIGS\<close> have three elements.
  The three variables the \<^verbatim>\<open>forEach\<close> of \<^verbatim>\<open>predictRunway\<close> updates are a record. \<open>bestScore\<close> starts
  as \<^verbatim>\<open>Infinity\<close>, which is \<open>None\<close> here; were it still \<^verbatim>\<open>Infinity\<close> after the loop,
  \<^verbatim>\<open>otherScore - bestScore\<close> would be NaN, and so would the confidence (\<open>None\<close>).
  \<^verbatim>\<open>find(...) || bestScore\<close> takes \<open>bestScore\<close> when nothing is found and when the score found
  is 0, which is falsy. \<open>scores\<close> is the object \<^verbatim>\<open>scores\<close> as an
  association list in insertion order, which is the order of \<^verbatim>\<open>Object.values\<close>.
\<close>

record scoring =
  bestRunway :: "runway_id option"
  bestScore :: "real option"
  scores :: "(runway_id \<times> real) list"

definition runway_score :: "'a flight_scheme \<Rightarrow> runway_id \<Rightarrow> real" where
  \<comment> \<open>The value of \<^verbatim>\<open>score\<close> in the body of the \<^verbatim>\<open>forEach\<close>.\<close>
  "runway_score flight rwyName =
     (let rwy = RUNWAYS rwyName;
          xtd = crossTrackDistance
                  (latitude flight) (longitude flight)
                  (lat (threshold rwy)) (lng (threshold rwy))
                  (lat (opposite rwy)) (lng (opposite rwy));
          headingPenalty = \<bar>angleDiff (num (flight.heading flight)) (runway.heading rwy)\<bar> / 180
      in xtd + headingPenalty * 5)"

definition score_runway :: "'a flight_scheme \<Rightarrow> runway_id \<Rightarrow> scoring \<Rightarrow> scoring" where
  \<comment> \<open>The body of the \<^verbatim>\<open>forEach\<close>, on the three variables.\<close>
  "score_runway flight rwyName st =
     (let score = runway_score flight rwyName;
          st1 = st\<lparr>scores := AList.update rwyName score (scores st)\<rparr>
      in if (case bestScore st1 of None \<Rightarrow> True | Some b \<Rightarrow> score < b)
         then st1\<lparr>bestScore := Some score, bestRunway := Some rwyName\<rparr>
         else st1)"

definition predictRunway :: "'a flight_scheme \<Rightarrow> config \<Rightarrow> prediction" where
  "predictRunway flight config =
     (let activeRunways = CONFIGS config
      in if \<not> isArriving_flag flight then \<lparr>runway = None, confidence = Some 0\<rparr>
         else
           (let rwyHeading = runway.heading (RUNWAYS (hd activeRunways));
                headingDiff = \<bar>angleDiff (num (flight.heading flight)) rwyHeading\<bar>;
                st = fold (score_runway flight) activeRunways
                       \<lparr>bestRunway = None, bestScore = None, scores = []\<rparr>
            in case bestScore st of
                 None \<Rightarrow> \<lparr>runway = bestRunway st, confidence = None\<rparr>
               | Some best \<Rightarrow>
                   (let scoreValues = map snd (scores st);
                        otherScore = (case find (\<lambda>s. s \<noteq> best) scoreValues of
                                        None \<Rightarrow> best
                                      | Some s \<Rightarrow> if s = 0 then best else s);
                        separation = otherScore - best;
                        c0 = min 1 (0.5 + separation * 0.5);
                        c1 = (if lt (distanceToAirport flight) 20 \<and> headingDiff < 10
                              then min 1 (c0 + 0.2) else c0);
                        c2 = (if gt (distanceToAirport flight) 50 then c1 * 0.6
                              else if gt (distanceToAirport flight) 30 then c1 * 0.8
                              else c1);
                        c3 = (if lt (verticalRate flight) (- 2)
                              then min 1 (c2 + 0.1) else c2)
                    in \<lparr>runway = bestRunway st, confidence = Some c3\<rparr>)))"

section \<open>Runway prediction engine: the pipeline\<close>

definition classify :: "'a flight_scheme \<Rightarrow> 'a flight_scheme" where
  \<comment> \<open>The body of the first \<^verbatim>\<open>forEach\<close> of \<^verbatim>\<open>runPredictions\<close>.\<close>
  "classify f =
     (let f1 = f\<lparr>distanceToAirport :=
                   Some (haversine (latitude f) (longitude f) (lat FRA) (lng FRA))\<rparr>;
          f2 = f1\<lparr>isDeparting_flag := isDeparting f1\<rparr>;
          f3 = f2\<lparr>isArriving_flag := isArriving f2\<rparr>
      in f3)"

definition store_prediction :: "config \<Rightarrow> 'a flight_scheme \<Rightarrow> 'a flight_scheme" where
  \<comment> \<open>The body of the second \<^verbatim>\<open>forEach\<close> of \<^verbatim>\<open>runPredictions\<close>.\<close>
  "store_prediction activeConfig f =
     (let prediction = predictRunway f activeConfig
      in f\<lparr>predictedRunway := runway prediction,
           confidence := prediction.confidence prediction\<rparr>)"

text \<open>
  \<^verbatim>\<open>runPredictions\<close> updates the objects of the array in place and assigns the variable
  \<^verbatim>\<open>activeConfig\<close>; the model returns the updated flights with the new value of
  \<^verbatim>\<open>activeConfig\<close>. Each pass writes only the object it visits, so it is a \<open>map\<close>.
\<close>

definition runPredictions :: "'a flight_scheme list \<Rightarrow> 'a flight_scheme list \<times> config" where
  "runPredictions flights =
     (let flights1 = map classify flights;
          activeConfig = detectConfiguration
            (filter (\<lambda>f. isArriving_flag f \<or> \<not> isDeparting_flag f) flights1);
          flights2 = map (store_prediction activeConfig) flights1
      in (flights2, activeConfig))"

section \<open>The wording of the specification\<close>

text \<open>
  The wording of the specification, for comparison with the code. A heading is
  \<^emph>\<open>closer than\<close> a tolerance to a target when the absolute signed difference is below the
  tolerance, and \<^emph>\<open>at most\<close> a tolerance away when it does not exceed it; an unknown
  heading is neither.
\<close>

definition heading_closer_than :: "real \<Rightarrow> real option \<Rightarrow> real \<Rightarrow> bool" where
  "heading_closer_than tol h target =
     (case h of None \<Rightarrow> False | Some a \<Rightarrow> \<bar>angleDiff a target\<bar> < tol)"

definition heading_at_most :: "real \<Rightarrow> real option \<Rightarrow> real \<Rightarrow> bool" where
  "heading_at_most tol h target =
     (case h of None \<Rightarrow> False | Some a \<Rightarrow> \<bar>angleDiff a target\<bar> \<le> tol)"

definition spec_departure_rule1 :: "'a flight_scheme \<Rightarrow> bool" where
  "spec_departure_rule1 f = (lt (distanceToAirport f) 30 \<and> gt (verticalRate f) 2)"

definition spec_departure_rule2 :: "'a flight_scheme \<Rightarrow> bool" where
  "spec_departure_rule2 f =
     (lt (distanceToAirport f) 15 \<and> lt (baroAltitude f) 1500 \<and> gt (verticalRate f) 0.5)"

definition spec_departure_rule3 :: "'a flight_scheme \<Rightarrow> bool" where
  "spec_departure_rule3 f =
     (lt (distanceToAirport f) 25 \<and> lt (baroAltitude f) 2000 \<and>
      (heading_closer_than 25 (flight.heading f) 180 \<or>
       heading_closer_than 25 (flight.heading f) 360) \<and>
      gt (verticalRate f) 0)"

definition spec_departure_rule4 :: "'a flight_scheme \<Rightarrow> bool" where
  "spec_departure_rule4 f =
     (lt (distanceToAirport f) 40 \<and> lt (baroAltitude f) 3000 \<and> gt (verticalRate f) 1 \<and>
      heading_closer_than 40 (flight.heading f)
        (bearing (lat FRA) (lng FRA) (latitude f) (longitude f)))"

definition spec_candidates :: "'a flight_scheme list \<Rightarrow> 'a flight_scheme list" where
  "spec_candidates fs =
     filter (\<lambda>f. lt (baroAltitude f) 4000 \<and> flight.heading f \<noteq> None \<and>
                 lt (verticalRate f) (- 1) \<and> lt (distanceToAirport f) 80) fs"

definition spec_westerlyVotes :: "'a flight_scheme list \<Rightarrow> nat" where
  "spec_westerlyVotes fs =
     length (filter (\<lambda>f. heading_closer_than 40 (flight.heading f) 250) (spec_candidates fs))"

definition spec_easterlyVotes :: "'a flight_scheme list \<Rightarrow> nat" where
  "spec_easterlyVotes fs =
     length (filter (\<lambda>f. heading_closer_than 40 (flight.heading f) 70) (spec_candidates fs))"

text \<open>
  Statements about a confidence, which is a number or \<open>None\<close>; \<open>None\<close> satisfies none of
  them.
\<close>

definition in_unit_interval :: "real option \<Rightarrow> bool" where
  "in_unit_interval c = (case c of None \<Rightarrow> False | Some v \<Rightarrow> 0 \<le> v \<and> v \<le> 1)"

definition at_least :: "real \<Rightarrow> real option \<Rightarrow> bool" where
  "at_least b c = (case c of None \<Rightarrow> False | Some v \<Rightarrow> b \<le> v)"

definition strictly_between :: "real \<Rightarrow> real \<Rightarrow> real option \<Rightarrow> bool" where
  "strictly_between a b c = (case c of None \<Rightarrow> False | Some v \<Rightarrow> a < v \<and> v < b)"

text \<open>A flight with its five derived fields replaced by the given values.\<close>

definition overwrite_derived ::
    "real option \<Rightarrow> bool \<Rightarrow> bool \<Rightarrow> runway_id option \<Rightarrow> real option \<Rightarrow>
     'a flight_scheme \<Rightarrow> 'a flight_scheme" where
  "overwrite_derived d a b r c f =
     f\<lparr>distanceToAirport := d, isDeparting_flag := a, isArriving_flag := b,
       predictedRunway := r, confidence := c\<rparr>"

section \<open>Auxiliary predicates\<close>

text \<open>
  What holds of the three loop variables of \<^verbatim>\<open>predictRunway\<close> between two iterations:
  while \<open>bestScore\<close> is still \<^verbatim>\<open>Infinity\<close> nothing has been scored; afterwards a runway
  is chosen and \<open>bestScore\<close> is a lower bound of every score recorded so far.
\<close>

definition scoring_inv :: "scoring \<Rightarrow> bool" where
  "scoring_inv st =
     (case bestScore st of
        None \<Rightarrow> scores st = []
      | Some b \<Rightarrow> bestRunway st \<noteq> None \<and> list_all (\<lambda>s. b \<le> s) (map snd (scores st)))"

section \<open>Example flights\<close>

text \<open>Example flights, as \<^verbatim>\<open>fetchFlights\<close> builds them.\<close>

definition example_arrival :: flight where
  "example_arrival =
     \<lparr>icao24 = ''3c6444'', latitude = 50.0267, longitude = 8.5584,
      baroAltitude = Some 1000, heading = Some 249, verticalRate = Some (- 3),
      distanceToAirport = None, isDeparting_flag = False, isArriving_flag = False,
      predictedRunway = None, confidence = None\<rparr>"

definition example_no_altitude :: flight where
  "example_no_altitude =
     \<lparr>icao24 = ''4b1805'', latitude = 50.1, longitude = 8.7,
      baroAltitude = None, heading = Some 249, verticalRate = Some (- 3),
      distanceToAirport = None, isDeparting_flag = False, isArriving_flag = False,
      predictedRunway = None, confidence = None\<rparr>"

definition example_batch :: "flight list" where
  "example_batch = [example_arrival, example_no_altitude]"

definition example_climbing :: flight where
  "example_climbing =
     \<lparr>icao24 = ''3c4b26'', latitude = 50.0267, longitude = 8.5584,
      baroAltitude = Some 500, heading = None, verticalRate = Some 3,
      distanceToAirport = None, isDeparting_flag = False, isArriving_flag = False,
      predictedRunway = None, confidence = None\<rparr>"

definition example_easterly :: flight where
  "example_easterly =
     \<lparr>icao24 = ''3c65a1'', latitude = 50.0267, longitude = 8.5584,
      baroAltitude = Some 800, heading = Some 69, verticalRate = Some (- 4),
      distanceToAirport = None, isDeparting_flag = False, isArriving_flag = False,
      predictedRunway = None, confidence = None\<rparr>"

text \<open>
  Ten kilometres along the meridian of the airport reference point, in degrees of latitude:
  the angle whose arc on a sphere of radius 6371 km is 10 km.
\<close>

definition ten_km_of_latitude :: real where
  "ten_km_of_latitude = 1800 / (6371 * pi)"

definition example_south :: flight where
  "example_south =
     \<lparr>icao24 = ''3c6701'', latitude = 50.0267 - ten_km_of_latitude, longitude = 8.5584,
      baroAltitude = Some 1000, heading = Some 250, verticalRate = Some (- 3),
      distanceToAirport = None, isDeparting_flag = False, isArriving_flag = False,
      predictedRunway = None, confidence = None\<rparr>"

definition example_north :: flight where
  "example_north =
     \<lparr>icao24 = ''3c6702'', latitude = 50.0267 + ten_km_of_latitude, longitude = 8.5584,
      baroAltitude = Some 1000, heading = Some 250, verticalRate = Some (- 3),
      distanceToAirport = None, isDeparting_flag = False, isArriving_flag = False,
      predictedRunway = None, confidence = None\<rparr>"

section \<open>Properties of the geodesy kernel\<close>

lemma js_rem_bounds:
  assumes "0 < y"
  shows "- y < js_rem x y" and "js_rem x y < y"
proof -
  define q where "q = x / y"
  define r where "r = q - of_int (if 0 \<le> q then \<lfloor>q\<rfloor> else \<lceil>q\<rceil>)"
  have x: "x = y * q" using assms by (simp add: q_def)
  have e: "js_rem x y = y * r"
    unfolding js_rem_def r_def q_def [symmetric] by (simp add: x algebra_simps)
  have r: "- 1 < r \<and> r < 1" unfolding r_def by (cases "0 \<le> q") (simp; linarith)+
  have "y * (- 1) < y * r" using r assms by (simp only: mult_less_cancel_left_pos)
  then show "- y < js_rem x y" by (simp add: e)
  have "y * r < y * 1" using r assms by (simp only: mult_less_cancel_left_pos)
  then show "js_rem x y < y" by (simp add: e)
qed

lemma angleDiff_range: "- 180 \<le> angleDiff a b" "angleDiff a b < 180"
  using js_rem_bounds [of 360 "a - b + 180"]
  by (auto simp add: angleDiff_def Let_def)

lemma angleDiff_350_10: "angleDiff 350 10 = - 20"
  by (simp add: angleDiff_def js_rem_def Let_def)

lemma angleDiff_values:
  "angleDiff 249 249 = 0" "angleDiff 249 69 = - 180"
  "angleDiff 249 250 = - 1" "angleDiff 249 70 = 179"
  "angleDiff 69 250 = 179" "angleDiff 69 70 = - 1"
  "angleDiff 250 249 = 1" "angleDiff 250 69 = - 179"
  "angleDiff 250 0 = - 110" "angleDiff 250 180 = 70"
  by (simp_all add: angleDiff_def js_rem_def ceiling_def)

lemma atan2_0_1: "atan2 0 1 = 0"
  by (simp add: atan2_def)

lemma haversine_sym: "haversine lat1 lon1 lat2 lon2 = haversine lat2 lon2 lat1 lon1"
proof -
  have s: "(sin (toRad (u - v) / 2))\<^sup>2 = (sin (toRad (v - u) / 2))\<^sup>2" for u v :: real
  proof -
    have "toRad (u - v) / 2 = - (toRad (v - u) / 2)"
      by (simp add: toRad_def algebra_simps diff_divide_distrib)
    then show ?thesis by (simp only: sin_minus power2_minus)
  qed
  show ?thesis
    unfolding haversine_def Let_def
    by (simp only: s [of lat2 lat1] s [of lon2 lon1] mult.commute [of "cos (toRad lat1)"])
qed

lemma haversine_same: "haversine lat1 lon1 lat1 lon1 = 0"
  by (simp add: haversine_def toRad_def atan2_0_1)

lemma toRad_add: "toRad (a + b) = toRad a + toRad b"
  by (simp add: toRad_def algebra_simps add_divide_distrib)

lemma atan2_sin_cos:
  assumes "0 \<le> t" "t < pi / 2"
  shows "atan2 (sin t) (cos t) = t"
proof -
  have c: "0 < cos t" using assms by (simp add: cos_gt_zero_pi)
  have "arctan (tan t) = t" using assms by (simp add: arctan_tan)
  then show ?thesis using c by (simp add: atan2_def tan_def)
qed

lemma haversine_meridian:
  assumes "0 \<le> d" "d < 180"
  shows "haversine lat1 lon (lat1 + d) lon = 6371 * toRad d"
proof -
  define t where "t = toRad d / 2"
  have t: "0 \<le> t" "t < pi / 2" using assms by (simp_all add: t_def toRad_def)
  have s: "0 \<le> sin t" using t by (simp add: sin_ge_zero)
  have c: "0 < cos t" using t by (simp add: cos_gt_zero_pi)
  have "1 - (sin t)\<^sup>2 = (cos t)\<^sup>2" by (simp add: cos_squared_eq)
  then have q: "sqrt (1 - (sin t)\<^sup>2) = cos t" using c by simp
  have "haversine lat1 lon (lat1 + d) lon = 6371 * 2 * atan2 (sqrt ((sin t)\<^sup>2)) (sqrt (1 - (sin t)\<^sup>2))"
    by (simp add: haversine_def Let_def t_def toRad_def)
  also have "\<dots> = 6371 * 2 * atan2 (sin t) (cos t)" using s q by simp
  also have "\<dots> = 6371 * 2 * t" using t by (simp add: atan2_sin_cos)
  finally show ?thesis by (simp add: t_def)
qed

lemma bearing_due_north:
  assumes "0 < d" "d < 180"
  shows "bearing lat1 lon (lat1 + d) lon = 0"
proof -
  have r: "0 < toRad d" "toRad d < pi" using assms by (simp_all add: toRad_def)
  have "cos (toRad lat1) * sin (toRad (lat1 + d)) - sin (toRad lat1) * cos (toRad (lat1 + d))
        = sin (toRad (lat1 + d) - toRad lat1)"
    by (simp add: sin_diff algebra_simps)
  also have "\<dots> = sin (toRad d)" by (simp add: toRad_add)
  finally have x: "cos (toRad lat1) * sin (toRad (lat1 + d)) -
      sin (toRad lat1) * cos (toRad (lat1 + d)) = sin (toRad d)" .
  have p: "0 < sin (toRad d)" using r by (simp add: sin_gt_zero)
  have "bearing lat1 lon (lat1 + d) lon =
      js_rem (js_rem (toDeg (atan2 0 (sin (toRad d)))) 360 + 360) 360"
    using x by (simp add: bearing_def Let_def toRad_def)
  also have "\<dots> = 0" using p by (simp add: atan2_def toDeg_def js_rem_def)
  finally show ?thesis .
qed

lemma bearing_due_south:
  assumes "0 < d" "d < 180"
  shows "bearing (lat1 + d) lon lat1 lon = 180"
proof -
  have r: "0 < toRad d" "toRad d < pi" using assms by (simp_all add: toRad_def)
  have "cos (toRad (lat1 + d)) * sin (toRad lat1) - sin (toRad (lat1 + d)) * cos (toRad lat1)
        = sin (toRad lat1 - toRad (lat1 + d))"
    by (simp add: sin_diff algebra_simps)
  also have "\<dots> = - sin (toRad d)" by (simp add: toRad_add)
  finally have x: "cos (toRad (lat1 + d)) * sin (toRad lat1) -
      sin (toRad (lat1 + d)) * cos (toRad lat1) = - sin (toRad d)" .
  have p: "0 < sin (toRad d)" using r by (simp add: sin_gt_zero)
  have "bearing (lat1 + d) lon lat1 lon =
      js_rem (js_rem (toDeg (atan2 0 (- sin (toRad d)))) 360 + 360) 360"
    using x by (simp add: bearing_def Let_def toRad_def)
  also have "\<dots> = 180" using p by (simp add: atan2_def toDeg_def js_rem_def)
  finally show ?thesis .
qed

section \<open>Properties of the classification\<close>

lemma isDeparting_rules:
  "isDeparting f =
     (if distanceToAirport f = None \<or> baroAltitude f = None then False
      else spec_departure_rule1 f \<or> spec_departure_rule2 f \<or>
           spec_departure_rule3 f \<or> spec_departure_rule4 f)"
  unfolding isDeparting_def spec_departure_rule1_def spec_departure_rule2_def
    spec_departure_rule3_def spec_departure_rule4_def heading_closer_than_def
  by (cases "distanceToAirport f"; cases "baroAltitude f"; cases "flight.heading f";
      cases "verticalRate f") (simp_all add: lt_def gt_def num_def Let_def)

lemma isArriving_rules:
  "isArriving f =
     (if baroAltitude f = None \<or> flight.heading f = None \<or>
         gt (distanceToAirport f) 80 \<or> gt (baroAltitude f) 4000 \<or>
         isDeparting f \<or> gt (verticalRate f) 3 then False
      else (heading_at_most 50 (flight.heading f) 249 \<or>
            heading_at_most 50 (flight.heading f) 69) \<and>
           (gt (distanceToAirport f) 5 \<longrightarrow>
              heading_at_most 70 (flight.heading f)
                (bearing (latitude f) (longitude f) (lat FRA) (lng FRA))))"
  unfolding isArriving_def heading_at_most_def ARRIVING_MAX_ALT_def ARRIVING_MAX_DIST_def
  by (cases "baroAltitude f"; cases "flight.heading f")
     (auto simp add: gt_def Let_def)

lemma isDeparting_cong:
  "distanceToAirport f = distanceToAirport g \<Longrightarrow> baroAltitude f = baroAltitude g \<Longrightarrow>
   flight.heading f = flight.heading g \<Longrightarrow> verticalRate f = verticalRate g \<Longrightarrow>
   latitude f = latitude g \<Longrightarrow> longitude f = longitude g \<Longrightarrow>
   isDeparting f = isDeparting g"
  by (simp add: isDeparting_def cong: option.case_cong)

lemma isArriving_cong:
  "distanceToAirport f = distanceToAirport g \<Longrightarrow> baroAltitude f = baroAltitude g \<Longrightarrow>
   flight.heading f = flight.heading g \<Longrightarrow> verticalRate f = verticalRate g \<Longrightarrow>
   latitude f = latitude g \<Longrightarrow> longitude f = longitude g \<Longrightarrow>
   isArriving f = isArriving g"
  using isDeparting_cong [of f g] by (simp add: isArriving_def cong: option.case_cong)

lemma isArriving_at_10km:
  assumes "distanceToAirport f = Some 10" "baroAltitude f = Some 1000"
    "flight.heading f = Some 250" "verticalRate f = Some (- 3)"
  shows "\<not> isDeparting f"
    and "isArriving f \<longleftrightarrow>
      \<bar>angleDiff 250 (bearing (latitude f) (longitude f) (lat FRA) (lng FRA))\<bar> \<le> 70"
proof -
  show d: "\<not> isDeparting f"
    using assms by (simp add: isDeparting_def gt_def)
  have w: "angleDiff 250 249 = 1" by (simp add: angleDiff_def js_rem_def)
  show "isArriving f \<longleftrightarrow>
      \<bar>angleDiff 250 (bearing (latitude f) (longitude f) (lat FRA) (lng FRA))\<bar> \<le> 70"
    using assms d w
    by (auto simp add: isArriving_def gt_def Let_def ARRIVING_MAX_DIST_def ARRIVING_MAX_ALT_def)
qed

section \<open>Properties of the configuration detection\<close>

lemma fold_vote:
  assumes "\<forall>f \<in> set cs. flight.heading f \<noteq> None"
  shows "fold vote cs (w, e) =
     (w + length (filter (\<lambda>f. heading_closer_than 40 (flight.heading f) 250) cs),
      e + length (filter (\<lambda>f. heading_closer_than 40 (flight.heading f) 70) cs))"
  using assms
proof (induction cs arbitrary: w e)
  case Nil
  then show ?case by simp
next
  case (Cons c cs)
  then obtain h where h: "flight.heading c = Some h" by auto
  have "vote c (w, e) = (if \<bar>angleDiff h 250\<bar> < 40 then w + 1 else w,
                         if \<bar>angleDiff h 70\<bar> < 40 then e + 1 else e)"
    by (simp add: vote_def Let_def h num_def)
  then show ?case using Cons by (simp add: heading_closer_than_def h)
qed

lemma detect_candidates:
  "filter (\<lambda>f. baroAltitude f \<noteq> None \<and> lt (baroAltitude f) ARRIVING_MAX_ALT \<and>
               flight.heading f \<noteq> None \<and> verticalRate f \<noteq> None \<and>
               lt (verticalRate f) (- 1) \<and>
               lt (distanceToAirport f) ARRIVING_MAX_DIST) fs = spec_candidates fs"
  unfolding spec_candidates_def ARRIVING_MAX_ALT_def ARRIVING_MAX_DIST_def
  by (rule filter_cong) (auto simp add: lt_def split: option.splits)

lemma detectConfiguration_votes:
  "detectConfiguration fs =
     (if spec_westerlyVotes fs \<ge> spec_easterlyVotes fs then westerly else easterly)"
proof -
  have k: "\<forall>f \<in> set (spec_candidates fs). flight.heading f \<noteq> None"
    by (simp add: spec_candidates_def)
  show ?thesis
    unfolding detectConfiguration_def Let_def detect_candidates
    by (simp add: fold_vote [OF k] spec_westerlyVotes_def spec_easterlyVotes_def)
qed

lemma vote_cong: "flight.heading f = flight.heading g \<Longrightarrow> vote f = vote g"
  by (simp add: vote_def)

lemma detectConfiguration_map:
  assumes "\<And>f. baroAltitude (h f) = baroAltitude f" "\<And>f. flight.heading (h f) = flight.heading f"
    "\<And>f. verticalRate (h f) = verticalRate f" "\<And>f. distanceToAirport (h f) = distanceToAirport f"
  shows "detectConfiguration (map h fs) = detectConfiguration fs"
proof -
  have v: "vote \<circ> h = vote" using vote_cong [OF assms(2)] by (simp add: fun_eq_iff)
  show ?thesis
    by (simp add: detectConfiguration_def Let_def filter_map comp_def fold_map assms
        v [unfolded comp_def])
qed

section \<open>Properties of the scoring loop\<close>

lemma snd_update_subset: "snd ` set (AList.update k v al) \<subseteq> insert v (snd ` set al)"
  by (induction al) auto

lemma score_runway_inv:
  assumes "scoring_inv st"
  shows "scoring_inv (score_runway f r st)" and "bestScore (score_runway f r st) \<noteq> None"
proof -
  let ?score = "runway_score f r"
  have e: "score_runway f r st =
     (if (case bestScore st of None \<Rightarrow> True | Some b \<Rightarrow> ?score < b)
      then st\<lparr>scores := AList.update r ?score (scores st), bestScore := Some ?score, bestRunway := Some r\<rparr>
      else st\<lparr>scores := AList.update r ?score (scores st)\<rparr>)"
    by (simp add: score_runway_def Let_def)
  have sub: "\<And>s. s \<in> snd ` set (AList.update r ?score (scores st)) \<Longrightarrow> s = ?score \<or> s \<in> snd ` set (scores st)"
    using snd_update_subset [of r ?score "scores st"] by blast
  show "bestScore (score_runway f r st) \<noteq> None"
    by (cases "bestScore st") (simp_all add: e)
  show "scoring_inv (score_runway f r st)"
  proof (cases "bestScore st")
    case None
    then show ?thesis using assms by (simp add: e scoring_inv_def)
  next
    case (Some b)
    then have old: "bestRunway st \<noteq> None" "\<And>s. s \<in> snd ` set (scores st) \<Longrightarrow> b \<le> s"
      using assms by (auto simp add: scoring_inv_def list_all_iff)
    show ?thesis
    proof (cases "?score < b")
      case True
      then show ?thesis using Some old sub
        by (fastforce simp add: e scoring_inv_def list_all_iff)
    next
      case False
      then show ?thesis using Some old sub
        by (fastforce simp add: e scoring_inv_def list_all_iff)
    qed
  qed
qed

lemma fold_score_runway_inv:
  "scoring_inv st \<Longrightarrow> scoring_inv (fold (score_runway f) rs st)"
  by (induction rs arbitrary: st) (simp_all add: score_runway_inv)

lemma fold_score_runway_best:
  "scoring_inv st \<Longrightarrow> rs \<noteq> [] \<Longrightarrow> bestScore (fold (score_runway f) rs st) \<noteq> None"
proof (induction rs arbitrary: st rule: rev_induct)
  case Nil
  then show ?case by simp
next
  case (snoc r rs)
  then show ?case using score_runway_inv(2) [OF fold_score_runway_inv] by simp
qed

lemma scoring_inv_init: "scoring_inv \<lparr>bestRunway = None, bestScore = None, scores = []\<rparr>"
  by (simp add: scoring_inv_def)

lemma CONFIGS_nonempty: "CONFIGS cfg \<noteq> []"
  by (cases cfg) simp_all

lemma otherScore_ge:
  fixes b :: real
  assumes "list_all (\<lambda>s. b \<le> s) vs"
  shows "b \<le> (case find (\<lambda>s. s \<noteq> b) vs of None \<Rightarrow> b | Some s \<Rightarrow> if s = 0 then b else s)"
proof (cases "find (\<lambda>s. s \<noteq> b) vs")
  case None
  then show ?thesis by simp
next
  case (Some s)
  then have "s \<in> set vs" by (auto simp add: find_Some_iff)
  then have "b \<le> s" using assms by (simp add: list_all_iff)
  then show ?thesis using Some by simp
qed

lemma adjust_bounds:
  fixes sep :: real and p q q' r :: bool
  assumes "0 \<le> sep"
  defines "c0 \<equiv> min 1 (0.5 + sep * 0.5)"
  defines "c1 \<equiv> (if p then min 1 (c0 + 0.2) else c0)"
  defines "c2 \<equiv> (if q then c1 * 0.6 else if q' then c1 * 0.8 else c1)"
  defines "c3 \<equiv> (if r then min 1 (c2 + 0.1) else c2)"
  shows "0.3 \<le> c3 \<and> c3 \<le> 1"
proof -
  have 0: "0.5 \<le> c0 \<and> c0 \<le> 1" using assms(1) by (simp add: c0_def min_def)
  have 1: "0.5 \<le> c1 \<and> c1 \<le> 1" using 0 by (simp add: c1_def min_def)
  have 2: "0.3 \<le> c2 \<and> c2 \<le> 1" using 1 by (simp add: c2_def)
  show ?thesis using 2 by (simp add: c3_def min_def)
qed

lemma predictRunway_not_arriving:
  "\<not> isArriving_flag f \<Longrightarrow> predictRunway f cfg = \<lparr>runway = None, confidence = Some 0\<rparr>"
  by (simp add: predictRunway_def)

lemma predictRunway_arriving:
  assumes "isArriving_flag f"
  shows "\<exists>c. prediction.confidence (predictRunway f cfg) = Some c \<and> 0.3 \<le> c \<and> c \<le> 1"
    and "runway (predictRunway f cfg) \<noteq> None"
proof -
  let ?st = "fold (score_runway f) (CONFIGS cfg) \<lparr>bestRunway = None, bestScore = None, scores = []\<rparr>"
  have inv: "scoring_inv ?st" by (rule fold_score_runway_inv [OF scoring_inv_init])
  have "bestScore ?st \<noteq> None"
    by (rule fold_score_runway_best [OF scoring_inv_init CONFIGS_nonempty])
  then obtain b where b: "bestScore ?st = Some b" by auto
  have rw: "bestRunway ?st \<noteq> None" and all: "list_all (\<lambda>s. b \<le> s) (map snd (scores ?st))"
    using inv b by (simp_all add: scoring_inv_def)
  have sep: "0 \<le> (case find (\<lambda>s. s \<noteq> b) (map snd (scores ?st)) of None \<Rightarrow> b | Some s \<Rightarrow> if s = 0 then b else s) - b"
    using otherScore_ge [OF all] by simp
  show "runway (predictRunway f cfg) \<noteq> None"
    using assms b rw by (simp add: predictRunway_def Let_def)
  show "\<exists>c. prediction.confidence (predictRunway f cfg) = Some c \<and> 0.3 \<le> c \<and> c \<le> 1"
    unfolding predictRunway_def Let_def
    apply (simp only: assms b option.case not_True_eq_False if_False prediction.simps)
    apply (rule exI, rule conjI, rule refl)
    apply (rule adjust_bounds [OF sep])
    done
qed

lemma predictRunway_confidence:
  "in_unit_interval (prediction.confidence (predictRunway f cfg))"
proof (cases "isArriving_flag f")
  case True
  then show ?thesis
    using predictRunway_arriving(1) [of f cfg] by (auto simp add: in_unit_interval_def)
next
  case False
  then show ?thesis by (simp add: predictRunway_not_arriving in_unit_interval_def)
qed

lemma predictRunway_cong:
  assumes "isArriving_flag f = isArriving_flag g" "distanceToAirport f = distanceToAirport g"
    "flight.heading f = flight.heading g" "verticalRate f = verticalRate g"
    "latitude f = latitude g" "longitude f = longitude g"
  shows "predictRunway f cfg = predictRunway g cfg"
proof -
  have "runway_score f = runway_score g"
    using assms by (simp add: runway_score_def fun_eq_iff)
  then have "score_runway f = score_runway g"
    by (simp add: score_runway_def fun_eq_iff)
  then show ?thesis
    unfolding predictRunway_def using assms by (simp only:)
qed

lemma predictRunway_derived [simp]:
  "predictRunway (f\<lparr>predictedRunway := r\<rparr>) cfg = predictRunway f cfg"
  "predictRunway (f\<lparr>confidence := c\<rparr>) cfg = predictRunway f cfg"
  by (rule predictRunway_cong; simp)+

section \<open>Properties of the pipeline\<close>

lemma classify_fields:
  "latitude (classify f) = latitude f"
  "longitude (classify f) = longitude f"
  "baroAltitude (classify f) = baroAltitude f"
  "flight.heading (classify f) = flight.heading f"
  "verticalRate (classify f) = verticalRate f"
  "distanceToAirport (classify f) =
     Some (haversine (latitude f) (longitude f) (lat FRA) (lng FRA))"
  by (simp_all add: classify_def Let_def)

lemma classify_flags:
  "isArriving_flag (classify g) = isArriving (classify g)"
  "isDeparting_flag (classify g) = isDeparting (classify g)"
  by (simp add: classify_def Let_def, (rule isArriving_cong isDeparting_cong, simp_all) [1])+

lemma classify_idem: "classify (classify f) = classify f"
  by (rule flight.equality; simp add: classify_def Let_def;
      (rule isDeparting_cong isArriving_cong; simp))

lemma classify_store:
  "classify (f\<lparr>predictedRunway := r, confidence := c\<rparr>) =
   (classify f)\<lparr>predictedRunway := r, confidence := c\<rparr>"
  by (rule flight.equality; simp add: classify_def Let_def;
      (rule isDeparting_cong isArriving_cong; simp))

lemma classify_overwrite_derived:
  "classify (overwrite_derived d a b r c f) =
   (classify f)\<lparr>predictedRunway := r, confidence := c\<rparr>"
  by (rule flight.equality; simp add: classify_def Let_def overwrite_derived_def;
      (rule isDeparting_cong isArriving_cong; simp))

lemma store_prediction_fields:
  "isArriving_flag (store_prediction cfg f) = isArriving_flag f"
  "predictedRunway (store_prediction cfg f) = runway (predictRunway f cfg)"
  "flight.confidence (store_prediction cfg f) = prediction.confidence (predictRunway f cfg)"
  "predictRunway (store_prediction cfg f) cfg' = predictRunway f cfg'"
  by (simp_all add: store_prediction_def Let_def)

lemma store_prediction_idem:
  "store_prediction cfg (store_prediction cfg f) = store_prediction cfg f"
  by (simp add: store_prediction_def Let_def)

lemma store_prediction_overwrite:
  "store_prediction cfg (f\<lparr>predictedRunway := r, confidence := c\<rparr>) = store_prediction cfg f"
  by (simp add: store_prediction_def Let_def)

lemma classify_store_prediction:
  "classify (store_prediction cfg (classify f)) = store_prediction cfg (classify f)"
  by (simp add: store_prediction_def Let_def classify_store classify_idem)

lemma isArriving_store_classify:
  "isArriving (store_prediction cfg (classify g)) = isArriving_flag (classify g)"
proof -
  have "isArriving (store_prediction cfg (classify g)) = isArriving (classify g)"
    by (rule isArriving_cong) (simp_all add: store_prediction_def Let_def)
  then show ?thesis by (simp add: classify_flags)
qed

lemma vote_store [simp]: "vote (store_prediction cfg f) = vote f"
  by (simp add: vote_def store_prediction_def Let_def)

lemma detectConfiguration_store:
  "detectConfiguration (map (store_prediction cfg) fs) = detectConfiguration fs"
proof -
  have v: "vote \<circ> store_prediction cfg = vote" by (simp add: fun_eq_iff)
  show ?thesis
    by (simp add: detectConfiguration_def Let_def filter_map comp_def fold_map
        store_prediction_def v [unfolded comp_def store_prediction_def Let_def])
qed

lemma filter_store:
  "filter (\<lambda>f. isArriving_flag f \<or> \<not> isDeparting_flag f) (map (store_prediction cfg) fs) =
   map (store_prediction cfg) (filter (\<lambda>f. isArriving_flag f \<or> \<not> isDeparting_flag f) fs)"
  by (simp add: filter_map comp_def store_prediction_def Let_def)

lemma runPredictions_member:
  assumes "f \<in> set (fst (runPredictions fs))"
  obtains g where "g \<in> set fs" "f = store_prediction (snd (runPredictions fs)) (classify g)"
  using assms by (auto simp add: runPredictions_def Let_def)

lemma runPredictions_idem: "runPredictions (fst (runPredictions fs)) = runPredictions fs"
proof -
  define fs1 where "fs1 = map classify fs"
  define cfg where "cfg = detectConfiguration
            (filter (\<lambda>f. isArriving_flag f \<or> \<not> isDeparting_flag f) fs1)"
  have r: "runPredictions fs = (map (store_prediction cfg) fs1, cfg)"
    by (simp add: runPredictions_def Let_def fs1_def cfg_def)
  have c: "map classify (map (store_prediction cfg) fs1) = map (store_prediction cfg) fs1"
    by (simp add: fs1_def classify_store_prediction)
  have d: "detectConfiguration (filter (\<lambda>f. isArriving_flag f \<or> \<not> isDeparting_flag f)
             (map (store_prediction cfg) fs1)) = cfg"
    by (simp only: filter_store detectConfiguration_store cfg_def)
  have s: "map (store_prediction cfg) (map (store_prediction cfg) fs1) = map (store_prediction cfg) fs1"
    by (simp add: store_prediction_idem)
  have "runPredictions (map (store_prediction cfg) fs1) = (map (store_prediction cfg) fs1, cfg)"
    unfolding runPredictions_def Let_def by (simp only: c d s)
  then show ?thesis by (simp add: r)
qed

lemma runPredictions_overwrite_derived:
  "runPredictions (map (overwrite_derived d a b r c) fs) = runPredictions fs"
proof -
  let ?h = "\<lambda>f::'a flight_scheme. f\<lparr>predictedRunway := r, confidence := c\<rparr>"
  let ?P = "\<lambda>f::'a flight_scheme. isArriving_flag f \<or> \<not> isDeparting_flag f"
  have m: "map classify (map (overwrite_derived d a b r c) fs) = map ?h (map classify fs)"
    by (simp add: classify_overwrite_derived)
  have f: "filter ?P (map ?h (map classify fs)) = map ?h (filter ?P (map classify fs))"
    by (simp add: filter_map comp_def)
  have g: "detectConfiguration (map ?h (filter ?P (map classify fs))) =
      detectConfiguration (filter ?P (map classify fs))"
    by (rule detectConfiguration_map) simp_all
  have s: "map (store_prediction cfg) (map ?h (map classify fs)) =
      map (store_prediction cfg) (map classify fs)" for cfg
    by (simp add: store_prediction_overwrite)
  show ?thesis
    unfolding runPredictions_def Let_def by (simp only: m f g s)
qed

lemma runPredictions_raw_only:
  assumes "map (overwrite_derived None False False None None) fs =
           map (overwrite_derived None False False None None) gs"
  shows "runPredictions fs = runPredictions gs"
  using runPredictions_overwrite_derived [of None False False None None fs]
    runPredictions_overwrite_derived [of None False False None None gs] assms
  by simp

section \<open>The example flights, evaluated\<close>

lemma ten_km_of_latitude_range: "0 < ten_km_of_latitude" "ten_km_of_latitude < 180"
proof -
  show "0 < ten_km_of_latitude" by (simp add: ten_km_of_latitude_def)
  have "1800 < 180 * (6371 * pi)" using pi_ge_two by simp
  then show "ten_km_of_latitude < 180"
    by (simp add: ten_km_of_latitude_def pos_divide_less_eq)
qed

lemma ten_km_of_latitude_arc: "6371 * toRad ten_km_of_latitude = 10"
  by (simp add: ten_km_of_latitude_def toRad_def)

lemma example_arrival_fields:
  "distanceToAirport (classify example_arrival) = Some 0"
  "baroAltitude (classify example_arrival) = Some 1000"
  "flight.heading (classify example_arrival) = Some 249"
  "verticalRate (classify example_arrival) = Some (- 3)"
  by (simp_all add: classify_fields example_arrival_def FRA_def haversine_same)

lemma example_arrival_classified:
  "isArriving_flag (classify example_arrival)"
  by (simp add: classify_def Let_def example_arrival_def FRA_def haversine_same
      isArriving_def isDeparting_def gt_def lt_def ARRIVING_MAX_DIST_def ARRIVING_MAX_ALT_def
      angleDiff_def js_rem_def)

lemma example_no_altitude_classified:
  "\<not> isArriving_flag (classify example_no_altitude)"
  by (simp add: classify_def Let_def example_no_altitude_def isArriving_def)

lemma example_batch_out:
  "fst (runPredictions example_batch) =
     [store_prediction (snd (runPredictions example_batch)) (classify example_arrival),
      store_prediction (snd (runPredictions example_batch)) (classify example_no_altitude)]"
  by (simp add: runPredictions_def Let_def example_batch_def)

lemma example_climbing_fields:
  "distanceToAirport (classify example_climbing) = Some 0"
  "baroAltitude (classify example_climbing) = Some 500"
  "flight.heading (classify example_climbing) = None"
  "verticalRate (classify example_climbing) = Some 3"
  by (simp_all add: classify_fields example_climbing_def FRA_def haversine_same)

lemma example_easterly_fields:
  "distanceToAirport (classify example_easterly) = Some 0"
  "baroAltitude (classify example_easterly) = Some 800"
  "flight.heading (classify example_easterly) = Some 69"
  "verticalRate (classify example_easterly) = Some (- 4)"
  by (simp_all add: classify_fields example_easterly_def FRA_def haversine_same)

lemma example_votes:
  "spec_candidates [classify example_arrival] = [classify example_arrival]"
  "spec_westerlyVotes [classify example_arrival] = 1"
  "spec_easterlyVotes [classify example_arrival] = 0"
  "spec_westerlyVotes [classify example_easterly] = 0"
  "spec_easterlyVotes [classify example_easterly] = 1"
  by (simp_all add: spec_candidates_def spec_westerlyVotes_def spec_easterlyVotes_def
      example_arrival_fields example_easterly_fields lt_def heading_closer_than_def
      angleDiff_values)

lemma detectConfiguration_example_easterly:
  "detectConfiguration [classify example_easterly] = easterly"
  by (simp add: detectConfiguration_votes example_votes)

lemma example_south_geometry:
  "haversine (latitude example_south) (longitude example_south) (lat FRA) (lng FRA) = 10"
  "bearing (latitude example_south) (longitude example_south) (lat FRA) (lng FRA) = 0"
proof -
  let ?a = "50.0267 - ten_km_of_latitude"
  have "haversine ?a 8.5584 (?a + ten_km_of_latitude) 8.5584 = 10"
    using haversine_meridian [of ten_km_of_latitude ?a "8.5584"] ten_km_of_latitude_range
    by (simp add: ten_km_of_latitude_arc)
  then show "haversine (latitude example_south) (longitude example_south) (lat FRA) (lng FRA) = 10"
    by (simp add: example_south_def FRA_def)
  have "bearing ?a 8.5584 (?a + ten_km_of_latitude) 8.5584 = 0"
    using bearing_due_north [of ten_km_of_latitude ?a "8.5584"] ten_km_of_latitude_range by simp
  then show "bearing (latitude example_south) (longitude example_south) (lat FRA) (lng FRA) = 0"
    by (simp add: example_south_def FRA_def)
qed

lemma example_north_geometry:
  "haversine (latitude example_north) (longitude example_north) (lat FRA) (lng FRA) = 10"
  "bearing (latitude example_north) (longitude example_north) (lat FRA) (lng FRA) = 180"
proof -
  let ?a = "50.0267 :: real"
  have "haversine (?a + ten_km_of_latitude) 8.5584 ?a 8.5584 = 10"
    using haversine_meridian [of ten_km_of_latitude ?a "8.5584"] ten_km_of_latitude_range
      haversine_sym [of "?a + ten_km_of_latitude" "8.5584" ?a "8.5584"]
    by (simp add: ten_km_of_latitude_arc)
  then show "haversine (latitude example_north) (longitude example_north) (lat FRA) (lng FRA) = 10"
    by (simp add: example_north_def FRA_def)
  have "bearing (?a + ten_km_of_latitude) 8.5584 ?a 8.5584 = 180"
    using bearing_due_south [of ten_km_of_latitude ?a "8.5584"] ten_km_of_latitude_range by simp
  then show "bearing (latitude example_north) (longitude example_north) (lat FRA) (lng FRA) = 180"
    by (simp add: example_north_def FRA_def)
qed

lemma example_south_classified:
  "distanceToAirport (classify example_south) = Some 10"
  "baroAltitude (classify example_south) = Some 1000"
  "flight.heading (classify example_south) = Some 250"
  "verticalRate (classify example_south) = Some (- 3)"
  "bearing (latitude (classify example_south)) (longitude (classify example_south))
     (lat FRA) (lng FRA) = 0"
  by (simp_all add: classify_fields example_south_geometry) (simp_all add: example_south_def)

lemma example_north_classified:
  "distanceToAirport (classify example_north) = Some 10"
  "baroAltitude (classify example_north) = Some 1000"
  "flight.heading (classify example_north) = Some 250"
  "verticalRate (classify example_north) = Some (- 3)"
  "bearing (latitude (classify example_north)) (longitude (classify example_north))
     (lat FRA) (lng FRA) = 180"
  by (simp_all add: classify_fields example_north_geometry) (simp_all add: example_north_def)

section \<open>The claims\<close>

text \<open>
  Claim C1. For every flight in a batch processed by \<open>runPredictions\<close>, the predicted
  runway is absent exactly when the flight's arriving flag is false (the flag being the value
  of \<open>isArriving\<close>), and in that case the confidence is 0; when the flag is true,
  \<open>predictRunway\<close> returns a runway.
\<close>

theorem C1_runway_present_iff_arriving:
  "\<forall>f \<in> set (fst (runPredictions fs)).
     isArriving_flag f = isArriving f \<and>
     (predictedRunway f = None \<longleftrightarrow> \<not> isArriving_flag f) \<and>
     (\<not> isArriving_flag f \<longrightarrow> flight.confidence f = Some 0) \<and>
     (isArriving_flag f \<longrightarrow> runway (predictRunway f cfg) \<noteq> None)"
proof
  fix f assume "f \<in> set (fst (runPredictions fs))"
  then obtain g where f: "f = store_prediction (snd (runPredictions fs)) (classify g)"
    by (rule runPredictions_member)
  show "isArriving_flag f = isArriving f \<and>
     (predictedRunway f = None \<longleftrightarrow> \<not> isArriving_flag f) \<and>
     (\<not> isArriving_flag f \<longrightarrow> flight.confidence f = Some 0) \<and>
     (isArriving_flag f \<longrightarrow> runway (predictRunway f cfg) \<noteq> None)"
  proof (cases "isArriving_flag (classify g)")
    case True
    then show ?thesis
      using predictRunway_arriving(2) [of "classify g"]
      by (simp add: f store_prediction_fields isArriving_store_classify)
  next
    case False
    then show ?thesis
      by (simp add: f store_prediction_fields isArriving_store_classify
          predictRunway_not_arriving)
  qed
qed

text \<open>
  Claim C1 on a batch of two flights: one over the airport reference point, descending on
  heading 249, and one without altitude.
\<close>

theorem C1_witness:
  "isArriving_flag (hd (fst (runPredictions example_batch))) \<and>
   predictedRunway (hd (fst (runPredictions example_batch))) \<noteq> None \<and>
   \<not> isArriving_flag (last (fst (runPredictions example_batch))) \<and>
   predictedRunway (last (fst (runPredictions example_batch))) = None \<and>
   flight.confidence (last (fst (runPredictions example_batch))) = Some 0"
proof -
  let ?out = "fst (runPredictions example_batch)"
  have m: "hd ?out \<in> set ?out" "last ?out \<in> set ?out"
    by (simp_all add: example_batch_out)
  have a: "isArriving_flag (hd ?out)" "\<not> isArriving_flag (last ?out)"
    by (simp_all add: example_batch_out store_prediction_fields example_arrival_classified
        example_no_altitude_classified)
  show ?thesis
    using C1_runway_present_iff_arriving [of example_batch westerly] m a by blast
qed

text \<open>
  Claim C2. For every flight processed by \<open>runPredictions\<close>, the stored confidence is the
  value \<open>predictRunway\<close> returns under the batch's configuration, after the base and the
  three adjustments, and it lies in the closed interval from 0 to 1.
\<close>

theorem C2_confidence_in_unit_interval:
  "\<forall>f \<in> set (fst (runPredictions fs)).
     flight.confidence f = prediction.confidence (predictRunway f (snd (runPredictions fs))) \<and>
     in_unit_interval (flight.confidence f)"
proof
  fix f assume "f \<in> set (fst (runPredictions fs))"
  then obtain g where f: "f = store_prediction (snd (runPredictions fs)) (classify g)"
    by (rule runPredictions_member)
  show "flight.confidence f = prediction.confidence (predictRunway f (snd (runPredictions fs))) \<and>
     in_unit_interval (flight.confidence f)"
    by (simp add: f store_prediction_fields predictRunway_confidence)
qed

text \<open>
  Claim C2 on the batch of two example flights: both stored confidences are numbers
  between 0 and 1.
\<close>

theorem C2_witness:
  "in_unit_interval (flight.confidence (hd (fst (runPredictions example_batch)))) \<and>
   in_unit_interval (flight.confidence (last (fst (runPredictions example_batch))))"
proof -
  let ?out = "fst (runPredictions example_batch)"
  have m: "hd ?out \<in> set ?out" "last ?out \<in> set ?out"
    by (simp_all add: example_batch_out)
  show ?thesis
    using C2_confidence_in_unit_interval [of example_batch] m by blast
qed

text \<open>
  Claim C3. \<open>isArriving\<close> is false if the altitude or the heading is unknown, if the
  distance to the airport exceeds 80 km, if the altitude exceeds 4000 m, if \<open>isDeparting\<close>
  holds, or if a known vertical rate exceeds 3 m/s. Otherwise it is true exactly when the
  heading is at most 50 degrees from 249 or from 69 and, whenever the distance exceeds 5 km,
  at most 70 degrees from the bearing from the aircraft to the airport.
\<close>

theorem C3_isArriving_characterised:
  "isArriving f =
     (if baroAltitude f = None \<or> flight.heading f = None \<or>
         gt (distanceToAirport f) 80 \<or> gt (baroAltitude f) 4000 \<or>
         isDeparting f \<or> gt (verticalRate f) 3 then False
      else (heading_at_most 50 (flight.heading f) 249 \<or>
            heading_at_most 50 (flight.heading f) 69) \<and>
           (gt (distanceToAirport f) 5 \<longrightarrow>
              heading_at_most 70 (flight.heading f)
                (bearing (latitude f) (longitude f) (lat FRA) (lng FRA))))"
  by (rule isArriving_rules)

text \<open>
  Claim C3 on two classified flights: the one over the airport on heading 249 is arriving,
  and the one 10 km south of it on heading 250, with the airport behind its left wing, is not.
\<close>

theorem C3_witness:
  "isArriving (classify example_arrival) \<and> \<not> isArriving (classify example_south)"
proof -
  have "\<not> isDeparting (classify example_arrival)"
    by (simp add: isDeparting_rules example_arrival_fields spec_departure_rule1_def
        spec_departure_rule2_def spec_departure_rule3_def spec_departure_rule4_def gt_def)
  then have a: "isArriving (classify example_arrival)"
    using C3_isArriving_characterised [of "classify example_arrival"]
    by (simp add: example_arrival_fields gt_def heading_at_most_def angleDiff_values)
  have "\<not> isArriving (classify example_south)"
    using C3_isArriving_characterised [of "classify example_south"]
    by (simp add: example_south_classified gt_def heading_at_most_def angleDiff_values)
  then show ?thesis using a by simp
qed

text \<open>
  Claim C4. \<open>isDeparting\<close> is false when the distance to the airport or the altitude is
  unknown; otherwise it is true exactly when one of the four rules matches, where a heading
  within a tolerance is one closer than the tolerance, and a rule whose heading or vertical
  rate is unknown fails.
\<close>

theorem C4_isDeparting_characterised:
  "isDeparting f =
     (if distanceToAirport f = None \<or> baroAltitude f = None then False
      else spec_departure_rule1 f \<or> spec_departure_rule2 f \<or>
           spec_departure_rule3 f \<or> spec_departure_rule4 f)"
  by (rule isDeparting_rules)

text \<open>
  Claim C4 on two classified flights: one climbing at 3 m/s over the airport, with no
  heading, departs by rule 1; the descending one does not depart.
\<close>

theorem C4_witness:
  "isDeparting (classify example_climbing) \<and> spec_departure_rule1 (classify example_climbing) \<and>
   \<not> isDeparting (classify example_arrival)"
  using C4_isDeparting_characterised [of "classify example_climbing"]
    C4_isDeparting_characterised [of "classify example_arrival"]
  by (simp add: example_climbing_fields example_arrival_fields spec_departure_rule1_def
      spec_departure_rule2_def spec_departure_rule3_def spec_departure_rule4_def gt_def lt_def)

text \<open>
  Claim C5. \<open>detectConfiguration\<close> returns westerly whenever the westerly votes are at least
  the easterly votes, the votes being cast by the candidates only; in particular it returns
  westerly when there is no candidate.
\<close>

theorem C5_detectConfiguration_westerly:
  "(spec_westerlyVotes fs \<ge> spec_easterlyVotes fs \<longrightarrow> detectConfiguration fs = westerly) \<and>
   (spec_candidates fs = [] \<longrightarrow> detectConfiguration fs = westerly)"
  by (simp add: detectConfiguration_votes spec_westerlyVotes_def spec_easterlyVotes_def)

text \<open>
  Claim C5 on the empty batch and on a batch of one candidate, which descends on heading
  249 and casts the only vote.
\<close>

theorem C5_witness:
  "detectConfiguration ([] :: flight list) = westerly \<and>
   spec_westerlyVotes [classify example_arrival] = 1 \<and>
   spec_easterlyVotes [classify example_arrival] = 0 \<and>
   detectConfiguration [classify example_arrival] = westerly"
  using C5_detectConfiguration_westerly [of "[] :: flight list"]
    C5_detectConfiguration_westerly [of "[classify example_arrival]"]
  by (simp add: example_votes spec_candidates_def)

text \<open>
  Claim C6, as the specification states it, fails: a flight 10 km due south of the airport,
  at 1000 m, on heading 250 and descending at 3 m/s, has the airport 110 degrees off its
  heading, and \<open>isArriving\<close> is false.
\<close>

theorem C6_counterexample:
  "distanceToAirport (classify example_south) = Some 10 \<and>
   baroAltitude (classify example_south) = Some 1000 \<and>
   flight.heading (classify example_south) = Some 250 \<and>
   verticalRate (classify example_south) = Some (- 3) \<and>
   \<not> isArriving (classify example_south) \<and>
   \<not> isArriving_flag (classify example_south)"
proof -
  have "\<not> isArriving (classify example_south)"
    using isArriving_at_10km(2) [OF example_south_classified(1-4)]
    by (simp add: example_south_classified angleDiff_values)
  then show ?thesis by (simp add: example_south_classified classify_flags)
qed

text \<open>
  Claim C6, amended. For every flight whose distance to the airport is 10 km, altitude
  1000 m, heading 250 and vertical rate -3 m/s, \<open>isDeparting\<close> is false, and \<open>isArriving\<close>
  is true exactly when the heading 250 is at most 70 degrees from the bearing from the
  aircraft to the airport.
\<close>

theorem C6_amended:
  assumes "distanceToAirport f = Some 10" "baroAltitude f = Some 1000"
    "flight.heading f = Some 250" "verticalRate f = Some (- 3)"
  shows "\<not> isDeparting f \<and>
    (isArriving f \<longleftrightarrow>
      \<bar>angleDiff 250 (bearing (latitude f) (longitude f) (lat FRA) (lng FRA))\<bar> \<le> 70)"
  using isArriving_at_10km [OF assms] by simp

text \<open>
  Claim C6, amended, on the flight 10 km due north of the airport: the airport bears 180,
  which is 70 degrees from the heading, and the flight is arriving.
\<close>

theorem C6_witness:
  "distanceToAirport (classify example_north) = Some 10 \<and>
   \<not> isDeparting (classify example_north) \<and> isArriving (classify example_north)"
  using C6_amended [OF example_north_classified(1-4)]
  by (simp add: example_north_classified angleDiff_values)

text \<open>
  Claim C7. Running \<open>runPredictions\<close> on its own output gives that output again, flights
  and configuration; and a run reads no derived field of its input: overwriting the five
  derived fields of every input flight with any values leaves the result unchanged, as every
  derived field is recomputed from the raw fields.
\<close>

theorem C7_runPredictions_idempotent:
  "runPredictions (fst (runPredictions fs)) = runPredictions fs \<and>
   runPredictions (map (overwrite_derived d a b r c) fs) = runPredictions fs"
  by (simp add: runPredictions_idem runPredictions_overwrite_derived)

text \<open>
  Claim C8. For all angles \<open>a\<close> and \<open>b\<close>, \<open>angleDiff a b\<close> lies in the closed interval
  from -180 to 180, and \<open>angleDiff 350 10\<close> is -20.
\<close>

theorem C8_angleDiff_interval:
  "- 180 \<le> angleDiff a b \<and> angleDiff a b \<le> 180 \<and> angleDiff 350 10 = - 20"
  using angleDiff_range [of a b] angleDiff_350_10 by simp

text \<open>
  Claim C9. The haversine distance is symmetric in its two points, and it is 0 whenever
  the two points are identical.
\<close>

theorem C9_haversine_symmetric_zero:
  "haversine latA lonA latB lonB = haversine latB lonB latA lonA \<and>
   haversine latA lonA latA lonA = 0"
  using haversine_sym [of latA lonA latB lonB] haversine_same [of latA lonA] by simp

text \<open>
  Claim C10. For every flight whose arriving flag is true, the confidence \<open>predictRunway\<close>
  returns is at least 0.3; and for every flight the returned confidence is never strictly
  between 0 and 0.3.
\<close>

theorem C10_confidence_at_least_03:
  "(isArriving_flag f \<longrightarrow> at_least 0.3 (prediction.confidence (predictRunway f cfg))) \<and>
   \<not> strictly_between 0 0.3 (prediction.confidence (predictRunway f cfg))"
proof (cases "isArriving_flag f")
  case True
  then show ?thesis
    using predictRunway_arriving(1) [of f cfg]
    by (auto simp add: at_least_def strictly_between_def)
next
  case False
  then show ?thesis by (simp add: predictRunway_not_arriving strictly_between_def)
qed

text \<open>Claim C10 on the first example flight, classified by the pipeline.\<close>

theorem C10_witness:
  "isArriving_flag (classify example_arrival) \<and>
   at_least 0.3 (prediction.confidence (predictRunway (classify example_arrival) westerly))"
  using C10_confidence_at_least_03 [of "classify example_arrival" westerly]
    example_arrival_classified by simp

end
